theory Spec2Isabelle
  imports Complex_Main
begin

section \<open>Tables as the loader sees them\<close>

text \<open>
  The program (\<^verbatim>\<open>RLS_Shiny.py\<close>) reads a spreadsheet with \<^verbatim>\<open>pandas.read_excel\<close>,
  validates the resulting data frame, fits a straight line and draws it.
  A data frame is modelled as the list of its columns in positional order, each paired
  with its header label. A label is any Python object; a column carries its dtype as
  its constructor, so that a cell can only hold what that dtype can hold:
  an \<^verbatim>\<open>int64\<close> column has no missing value, a \<^verbatim>\<open>float64\<close> cell is a number or NaN
  (the missing value, \<open>None\<close> below), an \<^verbatim>\<open>object\<close> cell is any Python object, with
  \<open>PNone\<close> for a missing one. The dtypes modelled are these three, the ones a sheet of
  numbers and text is read as.
\<close>

datatype pyobj = PStr string | PInt int | PFloat real | PNone

datatype column = Int64 "int list" | Float64 "real option list" | Object "pyobj list"

type_synonym dataframe = "(pyobj \<times> column) list"

datatype py_error = IndexError | TypeError | ReadError

fun col_len :: "column \<Rightarrow> nat" where
  "col_len (Int64 xs) = length xs"
| "col_len (Float64 xs) = length xs"
| "col_len (Object xs) = length xs"

text \<open>All columns of a data frame have the same number of rows.\<close>

definition frame_wf :: "dataframe \<Rightarrow> bool" where
  "frame_wf data = list_all (\<lambda>c. col_len (snd c) = col_len (snd (hd data))) data"

text \<open>\<^verbatim>\<open>isinstance(col, str)\<close>\<close>

fun is_str :: "pyobj \<Rightarrow> bool" where
  "is_str (PStr s) = True"
| "is_str _ = False"

text \<open>\<^verbatim>\<open>pd.api.types.is_numeric_dtype\<close>\<close>

fun is_numeric_dtype :: "column \<Rightarrow> bool" where
  "is_numeric_dtype (Int64 xs) = True"
| "is_numeric_dtype (Float64 xs) = True"
| "is_numeric_dtype (Object xs) = False"

text \<open>\<^verbatim>\<open>Series.isnull().any()\<close>\<close>

fun isnull_any :: "column \<Rightarrow> bool" where
  "isnull_any (Int64 xs) = False"
| "isnull_any (Float64 xs) = list_ex (\<lambda>c. c = None) xs"
| "isnull_any (Object xs) = list_ex (\<lambda>c. c = PNone) xs"

text \<open>\<^verbatim>\<open>data.iloc[:, i]\<close>: the column at position \<open>i\<close>, IndexError when there is none.\<close>

definition iloc :: "dataframe \<Rightarrow> nat \<Rightarrow> py_error + column" where
  "iloc data i = (if i < length data then Inr (snd (data ! i)) else Inl IndexError)"

section \<open>The loader\<close>

text \<open>
  The messages of the loader, as UTF-8 byte strings (the accented letters of the
  source take two bytes each).
\<close>

definition msg_tres_columnas :: string where
  "msg_tres_columnas = ''El archivo debe contener exactamente tres columnas.''"

definition msg_encabezado :: string where
  "msg_encabezado = ''Cada columna debe tener un encabezado.''"

definition msg_numericas :: string where
  "msg_numericas =
     ''Las columnas de la variable independiente y dependiente deben ser num''
     @ [CHR 0xC3, CHR 0xA9] @ ''ricas.''"

definition msg_nulos :: string where
  "msg_nulos = ''Las columnas no deben contener valores nulos.''"

definition msg_no_cargado :: string where
  "msg_no_cargado =
     ''No se pudo cargar el archivo. Verifica que sea un archivo .xlsx v''
     @ [CHR 0xC3, CHR 0xA1] @ ''lido.''"

text \<open>
  The body of the \<^verbatim>\<open>try\<close> block, with \<^verbatim>\<open>pd.read_excel\<close> as a parameter: it
  returns a data frame or raises. Every exception raised in the body is a left value
  here. The two \<^verbatim>\<open>print\<close> calls are left out.
\<close>

definition validar :: "(string \<Rightarrow> py_error + dataframe) \<Rightarrow> string
    \<Rightarrow> py_error + (dataframe option \<times> string option)" where
  "validar read_excel filepath =
     (case read_excel filepath of
        Inl e \<Rightarrow> Inl e
      | Inr data \<Rightarrow>
          if length data \<noteq> 3 then Inr (None, Some msg_tres_columnas)
          else if \<not> list_all is_str (map fst data) then Inr (None, Some msg_encabezado)
          else (case iloc data 1 of
                  Inl e \<Rightarrow> Inl e
                | Inr c1 \<Rightarrow>
                   (case iloc data 2 of
                      Inl e \<Rightarrow> Inl e
                    | Inr c2 \<Rightarrow>
                        if \<not> is_numeric_dtype c1 \<or> \<not> is_numeric_dtype c2
                        then Inr (None, Some msg_numericas)
                        else if list_ex (\<lambda>c. isnull_any (snd c)) data
                        then Inr (None, Some msg_nulos)
                        else Inr (Some data, None))))"

text \<open>The whole function: the \<^verbatim>\<open>except\<close> clause turns any exception into a message.\<close>

definition cargar_y_validar_datos :: "(string \<Rightarrow> py_error + dataframe) \<Rightarrow> string
    \<Rightarrow> dataframe option \<times> string option" where
  "cargar_y_validar_datos read_excel filepath =
     (case validar read_excel filepath of
        Inl e \<Rightarrow> (None, Some msg_no_cargado)
      | Inr res \<Rightarrow> res)"

section \<open>Numbers\<close>

text \<open>
  The results of the computation are \<^verbatim>\<open>numpy.float64\<close> values. They are modelled by
  \<open>fl\<close>: a finite value, one of the two infinities, or NaN. The special values follow
  IEEE 754 as numpy applies it (a division by zero gives an infinity or NaN and raises
  nothing); on finite values the arithmetic is that of the real numbers, so neither
  rounding nor overflow is modelled, and zero has no sign. The cells of a numeric column
  are finite numbers (or missing).
\<close>

datatype fl = Fin real | PInf | NInf | NaN

definition inf_of_sign :: "real \<Rightarrow> fl" where
  "inf_of_sign s = (if s = 0 then NaN else if 0 < s then PInf else NInf)"

fun fneg :: "fl \<Rightarrow> fl" where
  "fneg (Fin a) = Fin (- a)"
| "fneg PInf = NInf"
| "fneg NInf = PInf"
| "fneg NaN = NaN"

fun fadd :: "fl \<Rightarrow> fl \<Rightarrow> fl" where
  "fadd (Fin a) (Fin b) = Fin (a + b)"
| "fadd NaN y = NaN"
| "fadd x NaN = NaN"
| "fadd PInf NInf = NaN"
| "fadd NInf PInf = NaN"
| "fadd PInf y = PInf"
| "fadd x PInf = PInf"
| "fadd NInf y = NInf"
| "fadd x NInf = NInf"

definition fsub :: "fl \<Rightarrow> fl \<Rightarrow> fl" where
  "fsub x y = fadd x (fneg y)"

fun fmul :: "fl \<Rightarrow> fl \<Rightarrow> fl" where
  "fmul (Fin a) (Fin b) = Fin (a * b)"
| "fmul NaN y = NaN"
| "fmul x NaN = NaN"
| "fmul PInf (Fin b) = inf_of_sign b"
| "fmul NInf (Fin b) = inf_of_sign (- b)"
| "fmul (Fin a) PInf = inf_of_sign a"
| "fmul (Fin a) NInf = inf_of_sign (- a)"
| "fmul PInf PInf = PInf"
| "fmul PInf NInf = NInf"
| "fmul NInf PInf = NInf"
| "fmul NInf NInf = PInf"

fun fdiv :: "fl \<Rightarrow> fl \<Rightarrow> fl" where
  "fdiv (Fin a) (Fin b) = (if b = 0 then inf_of_sign a else Fin (a / b))"
| "fdiv NaN y = NaN"
| "fdiv x NaN = NaN"
| "fdiv (Fin a) PInf = Fin 0"
| "fdiv (Fin a) NInf = Fin 0"
| "fdiv PInf (Fin b) = (if b < 0 then NInf else PInf)"
| "fdiv NInf (Fin b) = (if b < 0 then PInf else NInf)"
| "fdiv PInf PInf = NaN"
| "fdiv PInf NInf = NaN"
| "fdiv NInf PInf = NaN"
| "fdiv NInf NInf = NaN"

text \<open>\<^verbatim>\<open>x ** 2\<close>\<close>

fun fpow2 :: "fl \<Rightarrow> fl" where
  "fpow2 (Fin a) = Fin (a * a)"
| "fpow2 PInf = PInf"
| "fpow2 NInf = PInf"
| "fpow2 NaN = NaN"

text \<open>\<^verbatim>\<open>x ** 0.5\<close>: the power function gives \<open>+inf\<close> at \<open>-inf\<close>, the square root NaN.\<close>

fun fpow_half :: "fl \<Rightarrow> fl" where
  "fpow_half (Fin a) = (if a < 0 then NaN else Fin (sqrt a))"
| "fpow_half PInf = PInf"
| "fpow_half NInf = PInf"
| "fpow_half NaN = NaN"

text \<open>\<^verbatim>\<open>np.sqrt\<close>\<close>

fun fsqrt :: "fl \<Rightarrow> fl" where
  "fsqrt (Fin a) = (if a < 0 then NaN else Fin (sqrt a))"
| "fsqrt PInf = PInf"
| "fsqrt NInf = NaN"
| "fsqrt NaN = NaN"

text \<open>\<^verbatim>\<open>np.clip(x, -1, 1)\<close>\<close>

fun fclip :: "fl \<Rightarrow> fl" where
  "fclip (Fin a) = Fin (min (max a (- 1)) 1)"
| "fclip PInf = Fin 1"
| "fclip NInf = Fin (- 1)"
| "fclip NaN = NaN"

section \<open>Series and their reductions\<close>

text \<open>
  The pandas operations the program calls, written from the behaviour pandas documents:
  a reduction skips missing values, \<^verbatim>\<open>cov\<close> and \<^verbatim>\<open>corr\<close> use the rows where both series
  have a value, \<^verbatim>\<open>var\<close> and \<^verbatim>\<open>cov\<close> divide by \<open>n - ddof\<close> with \<open>ddof = 1\<close> unless told
  otherwise and give NaN when \<open>n \<le> ddof\<close>, \<^verbatim>\<open>corr\<close> is \<^verbatim>\<open>numpy.corrcoef\<close>.
\<close>

text \<open>\<^verbatim>\<open>Series.to_numpy(dtype=float)\<close>; pandas raises on what is not a number.\<close>

fun to_float :: "column \<Rightarrow> py_error + real option list" where
  "to_float (Int64 xs) = Inr (map (\<lambda>i. Some (real_of_int i)) xs)"
| "to_float (Float64 xs) = Inr xs"
| "to_float (Object xs) = Inl TypeError"

fun cell :: "real option \<Rightarrow> fl" where
  "cell None = NaN"
| "cell (Some x) = Fin x"

fun dropna :: "real option list \<Rightarrow> real list" where
  "dropna [] = []"
| "dropna (None # xs) = dropna xs"
| "dropna (Some x # xs) = x # dropna xs"

fun valid_pairs :: "real option list \<Rightarrow> real option list \<Rightarrow> (real \<times> real) list" where
  "valid_pairs (Some x # xs) (Some y # ys) = (x, y) # valid_pairs xs ys"
| "valid_pairs (x # xs) (y # ys) = valid_pairs xs ys"
| "valid_pairs xs ys = []"

definition avg :: "real list \<Rightarrow> real" where
  "avg v = sum_list v / real (length v)"

definition series_mean :: "real option list \<Rightarrow> fl" where
  "series_mean xs = (let v = dropna xs in if v = [] then NaN else Fin (avg v))"

definition series_var :: "nat \<Rightarrow> real option list \<Rightarrow> fl" where
  "series_var ddof xs =
     (let v = dropna xs; n = length v
      in if n \<le> ddof then NaN
         else Fin (sum_list (map (\<lambda>x. (avg v - x) * (avg v - x)) v) / real (n - ddof)))"

text \<open>The entry \<open>[0, 1]\<close> of \<^verbatim>\<open>np.cov(a, b, ddof=ddof)\<close> for two rows of one length.\<close>

definition np_cov :: "nat \<Rightarrow> real list \<Rightarrow> real list \<Rightarrow> fl" where
  "np_cov ddof a b =
     (let n = length a
      in if n \<le> ddof then NaN
         else Fin (sum_list (map2 (\<lambda>x y. (x - avg a) * (y - avg b)) a b) / real (n - ddof)))"

definition series_cov :: "nat \<Rightarrow> real option list \<Rightarrow> real option list \<Rightarrow> fl" where
  "series_cov ddof xs ys =
     (let ps = valid_pairs xs ys
      in if ps = [] then NaN else np_cov ddof (map fst ps) (map snd ps))"

text \<open>The entry \<open>[0, 1]\<close> of \<^verbatim>\<open>np.corrcoef(a, b)\<close>.\<close>

definition np_corrcoef :: "real list \<Rightarrow> real list \<Rightarrow> fl" where
  "np_corrcoef a b =
     (let c = np_cov 1 a b;
          stddev0 = fsqrt (np_cov 1 a a);
          stddev1 = fsqrt (np_cov 1 b b)
      in fclip (fdiv (fdiv c stddev0) stddev1))"

definition series_corr :: "real option list \<Rightarrow> real option list \<Rightarrow> fl" where
  "series_corr xs ys =
     (let ps = valid_pairs xs ys
      in if ps = [] then NaN else np_corrcoef (map fst ps) (map snd ps))"

text \<open>\<^verbatim>\<open>Series.sum()\<close> of a float series: NaN entries are skipped, the empty sum is 0.\<close>

definition series_sum :: "fl list \<Rightarrow> fl" where
  "series_sum vs = foldr fadd (filter (\<lambda>v. v \<noteq> NaN) vs) (Fin 0)"



section \<open>The regression\<close>

record stats =
  pendiente :: fl
  interseccion :: fl
  coef_correlacion :: fl
  coef_determinacion :: fl
  error_estandar :: fl

definition calcular_estadisticos :: "dataframe \<Rightarrow> py_error + stats" where
  "calcular_estadisticos data =
     (case iloc data 1 of
        Inl e \<Rightarrow> Inl e
      | Inr cx \<Rightarrow>
     (case iloc data 2 of
        Inl e \<Rightarrow> Inl e
      | Inr cy \<Rightarrow>
     (case to_float cx of
        Inl e \<Rightarrow> Inl e
      | Inr X \<Rightarrow>
     (case to_float cy of
        Inl e \<Rightarrow> Inl e
      | Inr Y \<Rightarrow>
          let n = int (length X);
              b = fdiv (series_cov 1 X Y) (series_var 1 X);
              a = fsub (series_mean Y) (fmul b (series_mean X));
              r = series_corr X Y;
              r2 = fpow2 r;
              error_estandar =
                fdiv (series_sum (map fpow2
                        (map2 fsub (map cell Y) (map (\<lambda>x. fadd a (fmul b (cell x))) X))))
                     (Fin (real_of_int (n - 2)));
              error_estandar = fpow_half error_estandar
          in Inr \<lparr>pendiente = b, interseccion = a, coef_correlacion = r,
                  coef_determinacion = r2, error_estandar = error_estandar\<rparr>))))"

section \<open>The plot\<close>







section \<open>The server\<close>

text \<open>
  The inputs of a session: the uploaded file, if any, as its name and the path of its
  copy, and the values of the four sliders.
\<close>

record entrada =
  file_inp :: "(string \<times> string) option"
  signo :: int
  centenas :: int
  decenas :: int
  unidades :: int

datatype salida = Mensaje string | Prediccion int fl | Sin_salida

definition msg_sin_archivo :: string where
  "msg_sin_archivo = ''No se ha cargado ning'' @ [CHR 0xC3, CHR 0xBA] @ ''n archivo.''"

text \<open>
  The output \<^verbatim>\<open>interpretacion\<close>. The sentence it renders,
  \<^verbatim>\<open>f"Si X = {x_hypothetical}, entonces Y = {y_hypothetical:.2f}."\<close>, is modelled by
  the two values it shows. The function returns nothing when the file is rejected.
\<close>

definition interpretacion :: "(string \<Rightarrow> py_error + dataframe) \<Rightarrow> entrada
    \<Rightarrow> py_error + salida" where
  "interpretacion read_excel input =
     (case file_inp input of
        None \<Rightarrow> Inr (Mensaje msg_sin_archivo)
      | Some (name, datapath) \<Rightarrow>
          (case cargar_y_validar_datos read_excel datapath of
             (None, error_msg) \<Rightarrow> Inr Sin_salida
           | (Some data, error_msg) \<Rightarrow>
               (case calcular_estadisticos data of
                  Inl e \<Rightarrow> Inl e
                | Inr stats \<Rightarrow>
                    let x_hypothetical =
                          signo input * (centenas input * 100 + decenas input * 10
                                         + unidades input);
                        y_hypothetical =
                          fadd (interseccion stats)
                               (fmul (pendiente stats) (Fin (real_of_int x_hypothetical)))
                    in Inr (Prediccion x_hypothetical y_hypothetical))))"

section \<open>Reading a data set\<close>

text \<open>
  The values of a numeric column as real numbers, and the X and Y of a data frame as the
  statements below name them: the values of its columns 1 and 2.
\<close>

fun valores :: "column \<Rightarrow> real list" where
  "valores (Int64 xs) = map real_of_int xs"
| "valores (Float64 xs) = dropna xs"
| "valores (Object xs) = []"

definition col_X :: "dataframe \<Rightarrow> real list" where
  "col_X data = valores (snd (data ! 1))"

definition col_Y :: "dataframe \<Rightarrow> real list" where
  "col_Y data = valores (snd (data ! 2))"

section \<open>What the statements speak of\<close>

text \<open>A column all of whose values are equal (an empty one is).\<close>

definition constante :: "real list \<Rightarrow> bool" where
  "constante xs = list_all (\<lambda>x. x = hd xs) xs"


text \<open>
  The loader as its specification words it: the checks in their order, the first one
  that fails gives the message. The header check is the one the program makes.
\<close>

fun first_failure :: "(bool \<times> string) list \<Rightarrow> 'a \<Rightarrow> 'a option \<times> string option" where
  "first_failure [] t = (Some t, None)"
| "first_failure ((ok, msg) # checks) t =
     (if ok then first_failure checks t else (None, Some msg))"

definition load_and_validate_spec :: "(string \<Rightarrow> py_error + dataframe) \<Rightarrow> string
    \<Rightarrow> dataframe option \<times> string option" where
  "load_and_validate_spec parse f =
     (case parse f of
        Inl e \<Rightarrow> (None, Some msg_no_cargado)
      | Inr t \<Rightarrow> first_failure
          [(length t = 3, msg_tres_columnas),
           (\<forall>h \<in> set (map fst t). is_str h, msg_encabezado),
           (is_numeric_dtype (snd (t ! 1)) \<and> is_numeric_dtype (snd (t ! 2)), msg_numericas),
           (\<forall>c \<in> set t. \<not> isnull_any (snd c), msg_nulos)] t)"

text \<open>Two readers for the examples: one returns a given table, one fails.\<close>

definition leer_tabla :: "dataframe \<Rightarrow> string \<Rightarrow> py_error + dataframe" where
  "leer_tabla t f = Inr t"

definition leer_falla :: "string \<Rightarrow> py_error + dataframe" where
  "leer_falla f = Inl ReadError"


text \<open>Tables and slider settings for the examples.\<close>

definition tabla_recta :: dataframe where
  "tabla_recta =
     [(PStr ''id'', Object [PStr ''a'', PStr ''b'', PStr ''c'', PStr ''d'', PStr ''e'']),
      (PStr ''x'', Int64 [1, 2, 3, 4, 5]),
      (PStr ''y'', Int64 [2, 4, 6, 8, 10])]"



definition tabla_dos_columnas :: dataframe where
  "tabla_dos_columnas = [(PStr ''x'', Int64 [1, 2, 3]), (PStr ''y'', Int64 [2, 4, 6])]"

definition tabla_cuatro_columnas :: dataframe where
  "tabla_cuatro_columnas =
     [(PStr ''id'', Object [PStr ''a'', PStr ''b'', PStr ''c'']),
      (PStr ''x'', Int64 [1, 2, 3]), (PStr ''y'', Int64 [2, 4, 6]),
      (PStr ''z'', Int64 [0, 0, 0])]"

definition tabla_con_nulo :: dataframe where
  "tabla_con_nulo =
     [(PStr ''id'', Object [PStr ''a'', PStr ''b'', PStr ''c'']),
      (PStr ''x'', Int64 [1, 2, 3]), (PStr ''y'', Float64 [Some 2, None, Some 6])]"



definition entrada_seis :: entrada where
  "entrada_seis = \<lparr>file_inp = Some (''datos.xlsx'', ''/tmp/datos.xlsx''), signo = 1,
      centenas = 0, decenas = 0, unidades = 6\<rparr>"

section \<open>The loader: auxiliary facts\<close>

lemma msgs_distinct:
  "distinct [msg_no_cargado, msg_tres_columnas, msg_encabezado, msg_numericas, msg_nulos]"
  by (simp add: msg_no_cargado_def msg_tres_columnas_def msg_encabezado_def msg_numericas_def msg_nulos_def)

lemma cargar_Inl: "read_excel filepath = Inl e \<Longrightarrow>
  cargar_y_validar_datos read_excel filepath = (None, Some msg_no_cargado)"
  by (simp add: cargar_y_validar_datos_def validar_def)

lemma cargar_Inr: "read_excel filepath = Inr data \<Longrightarrow>
  cargar_y_validar_datos read_excel filepath =
    (if length data \<noteq> 3 then (None, Some msg_tres_columnas)
     else if \<not> list_all is_str (map fst data) then (None, Some msg_encabezado)
     else if \<not> is_numeric_dtype (snd (data ! 1)) \<or> \<not> is_numeric_dtype (snd (data ! 2))
       then (None, Some msg_numericas)
     else if list_ex (\<lambda>c. isnull_any (snd c)) data then (None, Some msg_nulos)
     else (Some data, None))"
  by (simp add: cargar_y_validar_datos_def validar_def iloc_def)

lemma cargar_Some_iff:
  "fst (cargar_y_validar_datos read_excel filepath) = Some data \<longleftrightarrow>
     read_excel filepath = Inr data \<and> length data = 3 \<and> list_all is_str (map fst data)
     \<and> is_numeric_dtype (snd (data ! 1)) \<and> is_numeric_dtype (snd (data ! 2))
     \<and> \<not> list_ex (\<lambda>c. isnull_any (snd c)) data"
proof (cases "read_excel filepath")
  case (Inl e)
  then show ?thesis by (simp add: cargar_Inl)
next
  case (Inr d)
  then show ?thesis by (auto simp add: cargar_Inr)
qed

lemma cargar_refines: "cargar_y_validar_datos rd fp = load_and_validate_spec rd fp"
proof (cases "rd fp")
  case (Inl e)
  then show ?thesis by (simp add: cargar_Inl load_and_validate_spec_def)
next
  case (Inr t)
  then show ?thesis
    by (simp add: cargar_Inr load_and_validate_spec_def list_all_iff list_ex_iff)
qed

section \<open>Series: auxiliary facts\<close>

lemma dropna_map_Some [simp]: "dropna (map Some v) = v"
  by (induction v) simp_all

lemma valid_pairs_map_Some [simp]: "valid_pairs (map Some a) (map Some b) = zip a b"
  by (induction a arbitrary: b) (simp, case_tac b, simp_all)

lemma float64_no_null: "\<not> list_ex (\<lambda>c. c = None) xs \<Longrightarrow> xs = map Some (dropna xs)"
  by (induction xs rule: dropna.induct) simp_all

lemma to_float_valores:
  "is_numeric_dtype c \<Longrightarrow> \<not> isnull_any c \<Longrightarrow> to_float c = Inr (map Some (valores c))"
  by (cases c) (simp_all add: float64_no_null [symmetric])

lemma col_len_valores:
  "is_numeric_dtype c \<Longrightarrow> \<not> isnull_any c \<Longrightarrow> length (valores c) = col_len c"
proof (cases c)
  case (Float64 xs)
  assume "\<not> isnull_any c"
  with Float64 have "xs = map Some (dropna xs)" by (simp add: float64_no_null)
  then have "length xs = length (dropna xs)" by (metis length_map)
  with Float64 show ?thesis by simp
qed simp_all













lemma validated_frame:
  assumes v: "fst (cargar_y_validar_datos read_excel filepath) = Some data"
  shows "length data = 3"
    and "to_float (snd (data ! 1)) = Inr (map Some (col_X data))"
    and "to_float (snd (data ! 2)) = Inr (map Some (col_Y data))"
    and "frame_wf data \<Longrightarrow> length (col_X data) = length (col_Y data)"
proof -
  from v have len: "length data = 3"
    and num: "is_numeric_dtype (snd (data ! 1))" "is_numeric_dtype (snd (data ! 2))"
    and nn: "\<not> list_ex (\<lambda>c. isnull_any (snd c)) data"
    by (simp_all add: cargar_Some_iff)
  from len have mem: "data ! 1 \<in> set data" "data ! 2 \<in> set data" by simp_all
  with nn have nn12: "\<not> isnull_any (snd (data ! 1))" "\<not> isnull_any (snd (data ! 2))"
    by (auto simp add: list_ex_iff)
  show "length data = 3" by (rule len)
  show "to_float (snd (data ! 1)) = Inr (map Some (col_X data))"
    using num(1) nn12(1) by (simp add: col_X_def to_float_valores)
  show "to_float (snd (data ! 2)) = Inr (map Some (col_Y data))"
    using num(2) nn12(2) by (simp add: col_Y_def to_float_valores)
  show "length (col_X data) = length (col_Y data)" if "frame_wf data"
  proof -
    from that mem have "col_len (snd (data ! 1)) = col_len (snd (data ! 2))"
      by (simp add: frame_wf_def list_all_iff)
    then show ?thesis
      using num nn12 by (simp add: col_X_def col_Y_def col_len_valores)
  qed
qed

lemma calc_validated:
  assumes v: "fst (cargar_y_validar_datos read_excel filepath) = Some data"
  defines "X \<equiv> map Some (col_X data)" and "Y \<equiv> map Some (col_Y data)"
  shows "\<exists>s. calcular_estadisticos data = Inr s
     \<and> pendiente s = fdiv (series_cov 1 X Y) (series_var 1 X)
     \<and> interseccion s = fsub (series_mean Y) (fmul (pendiente s) (series_mean X))
     \<and> coef_correlacion s = series_corr X Y
     \<and> coef_determinacion s = fpow2 (coef_correlacion s)
     \<and> error_estandar s = fpow_half (fdiv
          (series_sum (map fpow2 (map2 fsub (map cell Y)
             (map (\<lambda>x. fadd (interseccion s) (fmul (pendiente s) (cell x))) X))))
          (Fin (real_of_int (int (length X) - 2))))"
proof -
  define b where "b = fdiv (series_cov 1 X Y) (series_var 1 X)"
  define a where "a = fsub (series_mean Y) (fmul b (series_mean X))"
  define e where "e = fpow_half (fdiv
          (series_sum (map fpow2 (map2 fsub (map cell Y)
             (map (\<lambda>x. fadd a (fmul b (cell x))) X))))
          (Fin (real_of_int (int (length X) - 2))))"
  have len: "1 < length data" "2 < length data"
    using validated_frame(1) [OF v] by simp_all
  have "calcular_estadisticos data =
      Inr \<lparr>pendiente = b, interseccion = a, coef_correlacion = series_corr X Y,
           coef_determinacion = fpow2 (series_corr X Y), error_estandar = e\<rparr>"
    unfolding calcular_estadisticos_def iloc_def Let_def
    using len validated_frame(2,3) [OF v]
    by (simp only: if_True sum.case b_def a_def e_def X_def Y_def)
  then show ?thesis
    by (intro exI conjI) (assumption, simp_all add: b_def a_def e_def)
qed

section \<open>The regression: auxiliary facts\<close>

lemma fadd_NaN_right [simp]: "fadd x NaN = NaN"
  by (cases x) simp_all

lemma fmul_NaN_right [simp]: "fmul x NaN = NaN"
  by (cases x) simp_all

lemma fdiv_NaN_right [simp]: "fdiv x NaN = NaN"
  by (cases x) simp_all

lemma fsub_NaN [simp]: "fsub x NaN = NaN" "fsub NaN y = NaN"
  by (simp_all add: fsub_def)

lemma fsub_Fin [simp]: "fsub (Fin a) (Fin b) = Fin (a - b)"
  by (simp add: fsub_def)




















lemmas eval_defs = calcular_estadisticos_def iloc_def Let_def series_cov_def series_var_def
  series_mean_def series_corr_def np_corrcoef_def np_cov_def avg_def series_sum_def
  inf_of_sign_def fsub_def

lemmas load_defs = cargar_Some_iff leer_tabla_def frame_wf_def constante_def col_X_def
  col_Y_def

lemma sqrt_recta: "5 / sqrt (5 / 2) / sqrt 10 = (1::real)"
proof -
  have "sqrt (5 / 2) * sqrt 10 = sqrt (5\<^sup>2)" by (simp add: real_sqrt_mult [symmetric])
  then have "sqrt (5 / 2) * sqrt 10 = 5" by simp
  then show ?thesis by (simp add: field_simps)
qed

lemma calc_recta: "calcular_estadisticos tabla_recta =
   Inr \<lparr>pendiente = Fin 2, interseccion = Fin 0, coef_correlacion = Fin 1,
        coef_determinacion = Fin 1, error_estandar = Fin 0\<rparr>"
  using sqrt_recta by (simp add: tabla_recta_def eval_defs)


lemma valid_recta:
  "fst (cargar_y_validar_datos (leer_tabla tabla_recta) f) = Some tabla_recta"
  "frame_wf tabla_recta" "\<not> constante (col_X tabla_recta)"
  "distinct (col_X tabla_recta)" "3 \<le> length (col_X tabla_recta)"
  "col_X tabla_recta = [1, 2, 3, 4, 5]" "col_Y tabla_recta = [2, 4, 6, 8, 10]"
  by (simp_all add: load_defs tabla_recta_def)



section \<open>The claims\<close>

subsection \<open>C1\<close>




subsection \<open>C2\<close>




subsection \<open>C3\<close>

text \<open>
  Claim C3: the loader makes its five checks in order (the file is read, there are three
  columns, the headers are strings, columns 1 and 2 are numeric, no cell is missing) and
  stops at the first that fails with the message of that check; the five messages differ.
  So any table whose number of columns is not three (two or four, say) is rejected, a table
  with a missing cell is rejected (with the message about missing values when nothing
  earlier fails), and a table is returned exactly when all checks pass.
\<close>

theorem loader_checks_in_order:
  "cargar_y_validar_datos rd fp = load_and_validate_spec rd fp
   \<and> (rd fp = Inr t \<and> length t \<noteq> 3
        \<longrightarrow> cargar_y_validar_datos rd fp = (None, Some msg_tres_columnas))
   \<and> (rd fp = Inr t \<and> (\<exists>c \<in> set t. isnull_any (snd c))
        \<longrightarrow> fst (cargar_y_validar_datos rd fp) = None
            \<and> snd (cargar_y_validar_datos rd fp) \<noteq> None)
   \<and> (rd fp = Inr t \<and> length t = 3 \<and> (\<forall>h \<in> set (map fst t). is_str h)
        \<and> is_numeric_dtype (snd (t ! 1)) \<and> is_numeric_dtype (snd (t ! 2))
        \<and> (\<exists>c \<in> set t. isnull_any (snd c))
        \<longrightarrow> cargar_y_validar_datos rd fp = (None, Some msg_nulos))
   \<and> (rd fp = Inr t \<and> length t = 3 \<and> (\<forall>h \<in> set (map fst t). is_str h)
        \<and> is_numeric_dtype (snd (t ! 1)) \<and> is_numeric_dtype (snd (t ! 2))
        \<and> (\<forall>c \<in> set t. \<not> isnull_any (snd c))
        \<longrightarrow> cargar_y_validar_datos rd fp = (Some t, None))
   \<and> (fst (cargar_y_validar_datos rd fp) = Some t
        \<longleftrightarrow> rd fp = Inr t \<and> length t = 3 \<and> (\<forall>h \<in> set (map fst t). is_str h)
            \<and> is_numeric_dtype (snd (t ! 1)) \<and> is_numeric_dtype (snd (t ! 2))
            \<and> (\<forall>c \<in> set t. \<not> isnull_any (snd c)))
   \<and> (rd fp = Inl e \<longrightarrow> cargar_y_validar_datos rd fp = (None, Some msg_no_cargado))
   \<and> distinct [msg_no_cargado, msg_tres_columnas, msg_encabezado, msg_numericas, msg_nulos]"
proof (intro conjI impI)
  show "cargar_y_validar_datos rd fp = load_and_validate_spec rd fp"
    by (rule cargar_refines)
  show "distinct [msg_no_cargado, msg_tres_columnas, msg_encabezado, msg_numericas, msg_nulos]"
    by (rule msgs_distinct)
  show "fst (cargar_y_validar_datos rd fp) = Some t
        \<longleftrightarrow> rd fp = Inr t \<and> length t = 3 \<and> (\<forall>h \<in> set (map fst t). is_str h)
            \<and> is_numeric_dtype (snd (t ! 1)) \<and> is_numeric_dtype (snd (t ! 2))
            \<and> (\<forall>c \<in> set t. \<not> isnull_any (snd c))"
    by (simp add: cargar_Some_iff list_all_iff list_ex_iff)
qed (simp_all add: cargar_Inr cargar_Inl list_all_iff list_ex_iff)

theorem loader_checks_in_order_witness:
  "cargar_y_validar_datos (leer_tabla tabla_dos_columnas) ''datos.xlsx''
     = (None, Some msg_tres_columnas)
   \<and> cargar_y_validar_datos (leer_tabla tabla_cuatro_columnas) ''datos.xlsx''
     = (None, Some msg_tres_columnas)
   \<and> cargar_y_validar_datos (leer_tabla tabla_con_nulo) ''datos.xlsx''
     = (None, Some msg_nulos)
   \<and> cargar_y_validar_datos (leer_tabla tabla_recta) ''datos.xlsx''
     = (Some tabla_recta, None)
   \<and> cargar_y_validar_datos leer_falla ''datos.xlsx'' = (None, Some msg_no_cargado)
   \<and> cargar_y_validar_datos (leer_tabla tabla_recta) ''datos.xlsx''
     = load_and_validate_spec (leer_tabla tabla_recta) ''datos.xlsx''"
proof -
  have h2: "leer_tabla tabla_dos_columnas ''datos.xlsx'' = Inr tabla_dos_columnas
      \<and> length tabla_dos_columnas \<noteq> 3"
    by (simp add: leer_tabla_def tabla_dos_columnas_def)
  have h4: "leer_tabla tabla_cuatro_columnas ''datos.xlsx'' = Inr tabla_cuatro_columnas
      \<and> length tabla_cuatro_columnas \<noteq> 3"
    by (simp add: leer_tabla_def tabla_cuatro_columnas_def)
  have hn: "leer_tabla tabla_con_nulo ''datos.xlsx'' = Inr tabla_con_nulo
      \<and> length tabla_con_nulo = 3 \<and> (\<forall>h \<in> set (map fst tabla_con_nulo). is_str h)
      \<and> is_numeric_dtype (snd (tabla_con_nulo ! 1))
      \<and> is_numeric_dtype (snd (tabla_con_nulo ! 2))
      \<and> (\<exists>c \<in> set tabla_con_nulo. isnull_any (snd c))"
    by (simp add: leer_tabla_def tabla_con_nulo_def)
  have hr: "leer_tabla tabla_recta ''datos.xlsx'' = Inr tabla_recta
      \<and> length tabla_recta = 3 \<and> (\<forall>h \<in> set (map fst tabla_recta). is_str h)
      \<and> is_numeric_dtype (snd (tabla_recta ! 1))
      \<and> is_numeric_dtype (snd (tabla_recta ! 2))
      \<and> (\<forall>c \<in> set tabla_recta. \<not> isnull_any (snd c))"
    by (simp add: leer_tabla_def tabla_recta_def)
  have hf: "leer_falla ''datos.xlsx'' = Inl ReadError" by (simp add: leer_falla_def)
  have a: "cargar_y_validar_datos (leer_tabla tabla_dos_columnas) ''datos.xlsx''
      = (None, Some msg_tres_columnas)"
    using h2 loader_checks_in_order [of "leer_tabla tabla_dos_columnas" "''datos.xlsx''"
        tabla_dos_columnas ReadError]
    by blast
  have b: "cargar_y_validar_datos (leer_tabla tabla_cuatro_columnas) ''datos.xlsx''
      = (None, Some msg_tres_columnas)"
    using h4 loader_checks_in_order [of "leer_tabla tabla_cuatro_columnas" "''datos.xlsx''"
        tabla_cuatro_columnas ReadError]
    by blast
  have c: "cargar_y_validar_datos (leer_tabla tabla_con_nulo) ''datos.xlsx''
      = (None, Some msg_nulos)"
    using hn loader_checks_in_order [of "leer_tabla tabla_con_nulo" "''datos.xlsx''"
        tabla_con_nulo ReadError]
    by blast
  have d: "cargar_y_validar_datos (leer_tabla tabla_recta) ''datos.xlsx''
      = (Some tabla_recta, None)
    \<and> cargar_y_validar_datos (leer_tabla tabla_recta) ''datos.xlsx''
      = load_and_validate_spec (leer_tabla tabla_recta) ''datos.xlsx''"
    using hr loader_checks_in_order [of "leer_tabla tabla_recta" "''datos.xlsx''"
        tabla_recta ReadError]
    by blast
  have e: "cargar_y_validar_datos leer_falla ''datos.xlsx'' = (None, Some msg_no_cargado)"
    using hf loader_checks_in_order [of leer_falla "''datos.xlsx''" tabla_recta ReadError]
    by blast
  show ?thesis
    by (intro conjI) (rule a b c e d [THEN conjunct1] d [THEN conjunct2])+
qed

subsection \<open>C4\<close>


subsection \<open>C5\<close>



subsection \<open>C6\<close>




subsection \<open>C7\<close>



subsection \<open>C8\<close>



subsection \<open>C9\<close>

text \<open>
  Claim C9: with a sign of -1 or 1 and three digits between 0 and 9, the hypothetical X
  that the server composes lies between -999 and 999, and the output pairs it with
  \<open>a + b * X\<close> for the intercept and slope of the fit.
\<close>

theorem hypothetical_point:
  assumes sg: "signo input = - 1 \<or> signo input = 1"
    and dg: "0 \<le> centenas input \<and> centenas input \<le> 9"
      "0 \<le> decenas input \<and> decenas input \<le> 9"
      "0 \<le> unidades input \<and> unidades input \<le> 9"
    and f: "file_inp input = Some (name, datapath)"
    and v: "fst (cargar_y_validar_datos read_excel datapath) = Some data"
  shows "\<exists>s x. x = signo input * (100 * centenas input + 10 * decenas input + unidades input)
     \<and> - 999 \<le> x \<and> x \<le> 999
     \<and> calcular_estadisticos data = Inr s
     \<and> interpretacion read_excel input =
         Inr (Prediccion x (fadd (interseccion s) (fmul (pendiente s) (Fin (real_of_int x)))))"
proof -
  from calc_validated [OF v] obtain s where s: "calcular_estadisticos data = Inr s" by blast
  from v obtain m where c: "cargar_y_validar_datos read_excel datapath = (Some data, m)"
    by (cases "cargar_y_validar_datos read_excel datapath") simp
  define x where "x = signo input * (100 * centenas input + 10 * decenas input + unidades input)"
  have "- 999 \<le> x \<and> x \<le> 999" using sg dg unfolding x_def by auto
  moreover have "interpretacion read_excel input =
         Inr (Prediccion x (fadd (interseccion s) (fmul (pendiente s) (Fin (real_of_int x)))))"
    using f c s by (simp add: interpretacion_def Let_def x_def algebra_simps)
  ultimately show ?thesis using s x_def by blast
qed

theorem hypothetical_point_witness:
  "(signo entrada_seis = - 1 \<or> signo entrada_seis = 1)
   \<and> (0 \<le> centenas entrada_seis \<and> centenas entrada_seis \<le> 9)
   \<and> (0 \<le> decenas entrada_seis \<and> decenas entrada_seis \<le> 9)
   \<and> (0 \<le> unidades entrada_seis \<and> unidades entrada_seis \<le> 9)
   \<and> file_inp entrada_seis = Some (''datos.xlsx'', ''/tmp/datos.xlsx'')
   \<and> fst (cargar_y_validar_datos (leer_tabla tabla_recta) ''/tmp/datos.xlsx'')
       = Some tabla_recta
   \<and> interpretacion (leer_tabla tabla_recta) entrada_seis = Inr (Prediccion 6 (Fin 12))"
proof -
  have h: "signo entrada_seis = - 1 \<or> signo entrada_seis = 1"
    "0 \<le> centenas entrada_seis \<and> centenas entrada_seis \<le> 9"
    "0 \<le> decenas entrada_seis \<and> decenas entrada_seis \<le> 9"
    "0 \<le> unidades entrada_seis \<and> unidades entrada_seis \<le> 9"
    "file_inp entrada_seis = Some (''datos.xlsx'', ''/tmp/datos.xlsx'')"
    by (simp_all add: entrada_seis_def)
  have x: "signo entrada_seis * (100 * centenas entrada_seis + 10 * decenas entrada_seis
      + unidades entrada_seis) = 6"
    by (simp add: entrada_seis_def)
  from hypothetical_point [OF h valid_recta(1) [of "''/tmp/datos.xlsx''"]]
  have "interpretacion (leer_tabla tabla_recta) entrada_seis = Inr (Prediccion 6 (Fin 12))"
    unfolding x by (auto simp add: calc_recta)
  then show ?thesis using h valid_recta(1) [of "''/tmp/datos.xlsx''"] by simp
qed

subsection \<open>C10\<close>



end
